theory Spec2Isabelle
  imports Main
begin

section \<open>django\_q/conf.py: configuration resolution and capability probes\<close>

text \<open>
  The module reads the host settings once, when it is imported: the body of the class
  \<^verbatim>\<open>Conf\<close> computes every field top to bottom, then the module binds the optional
  \<^verbatim>\<open>django_redis\<close> provider and defines \<^verbatim>\<open>get_redis_client\<close> and \<^verbatim>\<open>get_ppid\<close>.
  Everything the module obtains from outside (the settings object, the multiprocessing
  and psutil probes, the object bound to the name \<^verbatim>\<open>signal\<close>, the os module, the
  django\_redis and redis libraries) is an explicit argument of the model, as the value
  the call returns or the exception it raises. The logger set-up and the translated status
  strings carry no decision logic and are left out.
\<close>

subsection \<open>Python values, truthiness, exceptions\<close>

text \<open>
  The values a settings dictionary can hold, as far as the module looks at them.
  \<open>PyObj\<close> is an opaque object (a function, a method wrapper), named by its repr.
\<close>

datatype pyval =
    PyNone
  | PyBool bool
  | PyInt int
  | PyStr string
  | PyDict "(string \<times> pyval) list"
  | PyObj string

text \<open>Python's truth test, as \<^verbatim>\<open>if not x\<close>, \<^verbatim>\<open>x or y\<close> and \<^verbatim>\<open>x and y\<close> apply it.\<close>

definition truthy :: "pyval \<Rightarrow> bool" where
  "truthy v =
     (case v of
        PyNone \<Rightarrow> False
      | PyBool b \<Rightarrow> b
      | PyInt n \<Rightarrow> n \<noteq> 0
      | PyStr s \<Rightarrow> s \<noteq> []
      | PyDict kvs \<Rightarrow> kvs \<noteq> []
      | PyObj r \<Rightarrow> True)"

text \<open>\<^verbatim>\<open>x or y\<close>: the first operand when it is truthy, else the second.\<close>

definition py_or :: "pyval \<Rightarrow> pyval \<Rightarrow> pyval" where
  "py_or x y = (if truthy x then x else y)"

datatype exn =
    NotImplementedError
  | AttributeError
  | ImportError
  | NameError
  | TypeError
  | OSError string
  | OtherException string

text \<open>\<^verbatim>\<open>d.get(key, default)\<close> on a dictionary.\<close>

definition dict_get :: "(string \<rightharpoonup> pyval) \<Rightarrow> string \<Rightarrow> pyval \<Rightarrow> pyval" where
  "dict_get d k dflt = (case d k of None \<Rightarrow> dflt | Some v \<Rightarrow> v)"

text \<open>\<^verbatim>\<open>dict(items)\<close>: of two items with the same key the later one stays.\<close>

definition dict_of_items :: "('k \<times> 'v) list \<Rightarrow> ('k \<rightharpoonup> 'v)" where
  "dict_of_items items = map_of (rev items)"

text \<open>\<^verbatim>\<open>n.startswith(pre)\<close>.\<close>

definition startswith :: "string \<Rightarrow> string \<Rightarrow> bool" where
  "startswith n pre = (take (length pre) n = pre)"

subsection \<open>What the module receives from outside\<close>

text \<open>
  The host's settings object. Reading an attribute returns its value or raises; a missing
  attribute raises \<open>AttributeError\<close>.
\<close>

record settings =
  settings_Q_CLUSTER :: "exn + (string \<rightharpoonup> pyval)"
  settings_SECRET_KEY :: "exn + string"

text \<open>
  The optional psutil module: \<^verbatim>\<open>psutil.cpu_count()\<close> (a count or \<^verbatim>\<open>None\<close>) and
  \<^verbatim>\<open>psutil.Process(pid).ppid()\<close>.
\<close>

record psutil_module =
  psutil_cpu_count :: pyval
  Process_ppid :: "int \<Rightarrow> int"

text \<open>
  A redis client object, told apart by the call that made it and the argument of that
  call: \<^verbatim>\<open>redis.StrictRedis(**options)\<close> or
  \<^verbatim>\<open>django_redis.get_redis_connection(alias)\<close>.
\<close>

datatype client =
    StrictRedis_client "(string \<times> pyval) list"
  | pooled_connection pyval

text \<open>
  The optional django\_redis module: what \<^verbatim>\<open>django_redis.get_redis_connection(alias)\<close>
  returns or raises for an alias.
\<close>

record django_redis_module =
  get_redis_connection :: "pyval \<Rightarrow> exn + client"

text \<open>
  The platform and the runtime:
  \<^item> \<open>cpu_count\<close>: what \<^verbatim>\<open>multiprocessing.cpu_count()\<close> returns or raises;
  \<^item> \<open>psutil\<close>: the module, or \<open>None\<close> when its import failed (lines 14 to 17);
  \<^item> \<open>qsize\<close>: what \<^verbatim>\<open>Queue().qsize()\<close> returns or raises;
  \<^item> \<open>signal_module\<close>: the attributes of the module \<^verbatim>\<open>signal\<close>, name and value, in
    the order of \<^verbatim>\<open>dir\<close>, its function \<^verbatim>\<open>signal\<close> apart;
  \<^item> \<open>signal_function\<close>: the attributes of the function \<^verbatim>\<open>signal.signal\<close>, likewise;
  \<^item> \<open>os_getppid\<close>: the result of \<^verbatim>\<open>os.getppid()\<close>, or \<open>None\<close> when the os
    module has no such attribute; \<open>os_getpid\<close>: the result of \<^verbatim>\<open>os.getpid()\<close>;
  \<^item> \<open>django_redis\<close>: the module that \<^verbatim>\<open>import django_redis\<close> gives, or \<open>None\<close>
    when the import raises ImportError;
  \<^item> \<open>StrictRedis\<close>: what \<^verbatim>\<open>redis.StrictRedis(**options)\<close> returns or raises for the
    keyword arguments \<open>options\<close>;
  \<^item> \<open>format_value\<close>: the text \<^verbatim>\<open>str.format\<close> puts for a value that is not a string.
\<close>

record platform =
  cpu_count :: "exn + int"
  psutil :: "psutil_module option"
  qsize :: "exn + int"
  signal_module :: "(string \<times> pyval) list"
  signal_function :: "(string \<times> pyval) list"
  os_getppid :: "int option"
  os_getpid :: int
  django_redis :: "django_redis_module option"
  StrictRedis :: "(string \<times> pyval) list \<Rightarrow> exn + client"
  format_value :: "pyval \<Rightarrow> string"

subsection \<open>The class body of Conf\<close>

text \<open>Lines 24 to 27: the settings dictionary, empty when the attribute is missing.\<close>

definition conf_of :: "settings \<Rightarrow> exn + (string \<rightharpoonup> pyval)" where
  "conf_of s =
     (case settings_Q_CLUSTER s of
        Inr c \<Rightarrow> Inr c
      | Inl e \<Rightarrow> if e = AttributeError then Inr Map.empty else Inl e)"

text \<open>
  Lines 50 to 61: the number of workers. Line 50 reads the override, with \<^verbatim>\<open>False\<close>
  for a missing key; line 51 tests it for truth. Only \<open>NotImplementedError\<close> is
  handled; any other exception of \<^verbatim>\<open>cpu_count()\<close> leaves the class body.
\<close>

definition workers_override :: "(string \<rightharpoonup> pyval) \<Rightarrow> pyval" where
  "workers_override conf = dict_get conf ''workers'' (PyBool False)"

definition WORKERS_of :: "(string \<rightharpoonup> pyval) \<Rightarrow> platform \<Rightarrow> exn + pyval" where
  "WORKERS_of conf p =
     (let w = workers_override conf in
      if \<not> truthy w then
        (case cpu_count p of
           Inr n \<Rightarrow> Inr (PyInt n)
         | Inl e \<Rightarrow>
             if e = NotImplementedError then
               (case psutil p of
                  Some m \<Rightarrow> Inr (py_or (psutil_cpu_count m) (PyInt 4))
                | None \<Rightarrow> Inr (PyInt 4))
             else Inl e)
      else Inr w)"

text \<open>
  Lines 90 and 92: \<^verbatim>\<open>'django_q:{}:q'.format(PREFIX)\<close>. A string is put as it is.
\<close>

definition py_format :: "platform \<Rightarrow> pyval \<Rightarrow> string" where
  "py_format p v = (case v of PyStr s \<Rightarrow> s | _ \<Rightarrow> format_value p v)"

definition Q_LIST_of :: "platform \<Rightarrow> pyval \<Rightarrow> string" where
  "Q_LIST_of p prefix = ''django_q:'' @ py_format p prefix @ '':q''"

definition Q_STAT_of :: "platform \<Rightarrow> pyval \<Rightarrow> string" where
  "Q_STAT_of p prefix = ''django_q:'' @ py_format p prefix @ '':cluster''"

text \<open>Lines 95 to 98: the qsize probe. Only \<open>NotImplementedError\<close> is handled.\<close>

definition QSIZE_of :: "platform \<Rightarrow> exn + bool" where
  "QSIZE_of p =
     (case qsize p of
        Inr n \<Rightarrow> Inr (n = 0)
      | Inl e \<Rightarrow> if e = NotImplementedError then Inr False else Inl e)"

text \<open>
  Line 101. Line 2 is \<^verbatim>\<open>from signal import signal\<close>, so the name \<^verbatim>\<open>signal\<close> in the
  class body is the function, and \<^verbatim>\<open>dir\<close> and \<^verbatim>\<open>getattr\<close> read the function's
  attributes.
\<close>

definition SIGNAL_NAMES_of :: "platform \<Rightarrow> (pyval \<rightharpoonup> string)" where
  "SIGNAL_NAMES_of p =
     dict_of_items
       [(v, n). (n, v) \<leftarrow> signal_function p, startswith n ''SIG'' \<and> CHR ''_'' \<notin> set n]"

record conf =
  REDIS :: pyval
  DJANGO_REDIS :: pyval
  PREFIX :: pyval
  LOG_LEVEL :: pyval
  SAVE_LIMIT :: pyval
  QUEUE_LIMIT :: pyval
  WORKERS :: pyval
  COMPRESSED :: pyval
  RECYCLE :: pyval
  TIMEOUT :: pyval
  LABEL :: pyval
  CPU_AFFINITY :: pyval
  SYNC :: pyval
  CATCH_UP :: pyval
  SECRET_KEY :: string
  Q_LIST :: string
  Q_STAT :: string
  QSIZE :: bool
  SIGNAL_NAMES :: "pyval \<rightharpoonup> string"
  TESTING :: pyval

text \<open>
  The fields of the class once the four statements that can raise have given their
  values: the dictionary \<open>c\<close>, the number of workers \<open>w\<close>, the secret \<open>k\<close> and
  the result \<open>q\<close> of the qsize probe. Every other field is a \<^verbatim>\<open>conf.get\<close> with its
  default, or is derived from \<^verbatim>\<open>PREFIX\<close> or from the platform.
\<close>

definition Conf_attrs ::
  "(string \<rightharpoonup> pyval) \<Rightarrow> pyval \<Rightarrow> string \<Rightarrow> bool \<Rightarrow> platform \<Rightarrow> conf" where
  "Conf_attrs c w k q p =
     \<lparr> REDIS = dict_get c ''redis'' (PyDict []),
       DJANGO_REDIS = dict_get c ''django_redis'' PyNone,
       PREFIX = dict_get c ''name'' (PyStr ''default''),
       LOG_LEVEL = dict_get c ''log_level'' (PyStr ''INFO''),
       SAVE_LIMIT = dict_get c ''save_limit'' (PyInt 250),
       QUEUE_LIMIT = dict_get c ''queue_limit'' PyNone,
       WORKERS = w,
       COMPRESSED = dict_get c ''compress'' (PyBool False),
       RECYCLE = dict_get c ''recycle'' (PyInt 500),
       TIMEOUT = dict_get c ''timeout'' PyNone,
       LABEL = dict_get c ''label'' (PyStr ''Django Q''),
       CPU_AFFINITY = dict_get c ''cpu_affinity'' (PyInt 0),
       SYNC = dict_get c ''sync'' (PyBool False),
       CATCH_UP = dict_get c ''catch_up'' (PyBool True),
       SECRET_KEY = k,
       Q_LIST = Q_LIST_of p (dict_get c ''name'' (PyStr ''default'')),
       Q_STAT = Q_STAT_of p (dict_get c ''name'' (PyStr ''default'')),
       QSIZE = q,
       SIGNAL_NAMES = SIGNAL_NAMES_of p,
       TESTING = dict_get c ''testing'' (PyBool False) \<rparr>"

text \<open>
  The class body, in the order of the source. The statements that can raise are the
  read of \<^verbatim>\<open>settings.Q_CLUSTER\<close>, the worker probe, the read of
  \<^verbatim>\<open>settings.SECRET_KEY\<close> and the qsize probe; the first that raises ends the body.
\<close>

definition Conf :: "settings \<Rightarrow> platform \<Rightarrow> exn + conf" where
  "Conf s p =
     (case conf_of s of
        Inl e \<Rightarrow> Inl e
      | Inr c \<Rightarrow>
     (case WORKERS_of c p of
        Inl e \<Rightarrow> Inl e
      | Inr w \<Rightarrow>
     (case settings_SECRET_KEY s of
        Inl e \<Rightarrow> Inl e
      | Inr k \<Rightarrow>
     (case QSIZE_of p of
        Inl e \<Rightarrow> Inl e
      | Inr q \<Rightarrow> Inr (Conf_attrs c w k q p)))))"

subsection \<open>The redis client\<close>





subsection \<open>The parent process id\<close>

text \<open>Lines 150 to 156.\<close>

definition get_ppid :: "platform \<Rightarrow> exn + int" where
  "get_ppid p =
     (case os_getppid p of
        Some ppid \<Rightarrow> Inr ppid
      | None \<Rightarrow>
          (case psutil p of
             Some m \<Rightarrow> Inr (Process_ppid m (os_getpid p))
           | None \<Rightarrow>
               Inl (OSError ''Your OS does not support `os.getppid`. Please install `psutil` as an alternative provider.'')))"

subsection \<open>Properties the statements use\<close>

text \<open>
  The keys the class body reads from the settings dictionary (lines 30 to 111).
\<close>

definition conf_keys :: "string list" where
  "conf_keys =
     [''redis'', ''django_redis'', ''name'', ''log_level'', ''save_limit'', ''queue_limit'',
      ''workers'', ''compress'', ''recycle'', ''timeout'', ''label'', ''cpu_affinity'',
      ''sync'', ''catch_up'', ''testing'']"

text \<open>
  A worker count that is an integer and at least 1. In Python \<^verbatim>\<open>bool\<close> is a subclass of
  \<^verbatim>\<open>int\<close> and \<^verbatim>\<open>True\<close> is 1.
\<close>

definition at_least_one :: "pyval \<Rightarrow> bool" where
  "at_least_one v = (case v of PyInt n \<Rightarrow> 1 \<le> n | PyBool b \<Rightarrow> b | _ \<Rightarrow> False)"

text \<open>
  What the two libraries promise of their probes: \<^verbatim>\<open>multiprocessing.cpu_count()\<close>
  returns a count of at least 1 or raises; \<^verbatim>\<open>psutil.cpu_count()\<close> returns
  \<^verbatim>\<open>None\<close> or a count that is not negative.
\<close>

definition probe_contract :: "platform \<Rightarrow> bool" where
  "probe_contract p =
     ((case cpu_count p of Inr n \<Rightarrow> 1 \<le> n | Inl e \<Rightarrow> True) \<and>
      (case psutil p of
         None \<Rightarrow> True
       | Some m \<Rightarrow>
           (case psutil_cpu_count m of PyNone \<Rightarrow> True | PyInt n \<Rightarrow> 0 \<le> n | _ \<Rightarrow> False)))"

subsection \<open>Concrete inputs\<close>

text \<open>
  The attributes of a built-in function object as CPython 2.7 lists them with
  \<^verbatim>\<open>dir(signal.signal)\<close>. No name among them starts with SIG.
\<close>

definition builtin_function_attrs :: "(string \<times> pyval) list" where
  "builtin_function_attrs =
     [(''__call__'', PyObj ''<method-wrapper>''),
      (''__class__'', PyObj ''<type builtin_function_or_method>''),
      (''__cmp__'', PyObj ''<method-wrapper>''),
      (''__delattr__'', PyObj ''<method-wrapper>''),
      (''__doc__'', PyStr ''signal(sig, action) -> action''),
      (''__eq__'', PyObj ''<method-wrapper>''),
      (''__format__'', PyObj ''<built-in method>''),
      (''__ge__'', PyObj ''<method-wrapper>''),
      (''__getattribute__'', PyObj ''<method-wrapper>''),
      (''__gt__'', PyObj ''<method-wrapper>''),
      (''__hash__'', PyObj ''<method-wrapper>''),
      (''__init__'', PyObj ''<method-wrapper>''),
      (''__le__'', PyObj ''<method-wrapper>''),
      (''__lt__'', PyObj ''<method-wrapper>''),
      (''__module__'', PyStr ''signal''),
      (''__name__'', PyStr ''signal''),
      (''__ne__'', PyObj ''<method-wrapper>''),
      (''__new__'', PyObj ''<built-in method>''),
      (''__reduce__'', PyObj ''<built-in method>''),
      (''__reduce_ex__'', PyObj ''<built-in method>''),
      (''__repr__'', PyObj ''<method-wrapper>''),
      (''__self__'', PyNone),
      (''__setattr__'', PyObj ''<method-wrapper>''),
      (''__sizeof__'', PyObj ''<built-in method>''),
      (''__str__'', PyObj ''<method-wrapper>''),
      (''__subclasshook__'', PyObj ''<built-in method>'')]"

text \<open>
  A conversion for the example platform; the examples format strings only.
\<close>

definition example_format :: "pyval \<Rightarrow> string" where
  "example_format v =
     (case v of
        PyNone \<Rightarrow> ''None''
      | PyBool b \<Rightarrow> (if b then ''True'' else ''False'')
      | _ \<Rightarrow> ''<object>'')"

text \<open>
  A redis library for the example platform: \<^verbatim>\<open>StrictRedis\<close> accepts the keyword
  arguments of redis-py's constructor and raises TypeError on any other; it does not
  connect.
\<close>

definition redis_options :: "string list" where
  "redis_options =
     [''host'', ''port'', ''db'', ''password'', ''socket_timeout'',
      ''socket_connect_timeout'', ''socket_keepalive'', ''socket_keepalive_options'',
      ''connection_pool'', ''unix_socket_path'', ''encoding'', ''encoding_errors'',
      ''charset'', ''errors'', ''decode_responses'', ''retry_on_timeout'', ''ssl'',
      ''ssl_keyfile'', ''ssl_certfile'', ''ssl_cert_reqs'', ''ssl_ca_certs'']"

definition example_StrictRedis :: "(string \<times> pyval) list \<Rightarrow> exn + client" where
  "example_StrictRedis kvs =
     (if list_all (\<lambda>k. k \<in> set redis_options) (map fst kvs)
      then Inr (StrictRedis_client kvs) else Inl TypeError)"

text \<open>
  A django\_redis module for a host whose only configured cache is \<^verbatim>\<open>'default'\<close>: any
  other alias raises InvalidCacheBackendError.
\<close>

definition example_django_redis :: django_redis_module where
  "example_django_redis =
     \<lparr> get_redis_connection =
         (\<lambda>alias. if alias = PyStr ''default'' then Inr (pooled_connection alias)
                  else Inl (OtherException ''InvalidCacheBackendError'')) \<rparr>"

text \<open>
  A Linux host with eight processors, without psutil and without django\_redis. The
  variants below change one field at a time.
\<close>

definition linux :: platform where
  "linux =
     \<lparr> cpu_count = Inr 8,
       psutil = None,
       qsize = Inr 0,
       signal_module =
         [(''SIGHUP'', PyInt 1), (''SIGINT'', PyInt 2), (''SIGKILL'', PyInt 9),
          (''SIGTERM'', PyInt 15), (''SIG_DFL'', PyInt 0), (''SIG_IGN'', PyInt 1)],
       signal_function = builtin_function_attrs,
       os_getppid = Some 1,
       os_getpid = 4242,
       django_redis = None,
       StrictRedis = example_StrictRedis,
       format_value = example_format \<rparr>"

definition example_psutil :: psutil_module where
  "example_psutil = \<lparr> psutil_cpu_count = PyInt 2, Process_ppid = (\<lambda>pid. 1) \<rparr>"

text \<open>The scenario of the specification, and settings without \<^verbatim>\<open>Q_CLUSTER\<close>.\<close>

definition site2_settings :: settings where
  "site2_settings =
     \<lparr> settings_Q_CLUSTER =
         Inr [''name'' \<mapsto> PyStr ''site2'', ''workers'' \<mapsto> PyInt 2,
              ''save_limit'' \<mapsto> PyInt 0],
       settings_SECRET_KEY = Inr ''s3cr3t'' \<rparr>"

definition bare_settings :: settings where
  "bare_settings =
     \<lparr> settings_Q_CLUSTER = Inl AttributeError, settings_SECRET_KEY = Inr ''s3cr3t'' \<rparr>"

text \<open>Settings that name a django\_redis alias and give redis options.\<close>

definition pooled_settings :: settings where
  "pooled_settings =
     \<lparr> settings_Q_CLUSTER =
         Inr [''django_redis'' \<mapsto> PyStr ''default'',
              ''redis'' \<mapsto> PyDict [(''host'', PyStr ''127.0.0.1''), (''port'', PyInt 6379)]],
       settings_SECRET_KEY = Inr ''s3cr3t'' \<rparr>"

section \<open>Theorems\<close>

lemmas example_defs =
  linux_def example_psutil_def site2_settings_def bare_settings_def pooled_settings_def
  example_format_def builtin_function_attrs_def example_StrictRedis_def redis_options_def
  example_django_redis_def

lemmas model_defs =
  Conf_def Conf_attrs_def conf_of_def WORKERS_of_def workers_override_def QSIZE_of_def
  Q_LIST_of_def Q_STAT_of_def py_format_def SIGNAL_NAMES_of_def dict_get_def
  dict_of_items_def startswith_def truthy_def py_or_def

subsection \<open>The number of workers\<close>

lemma Conf_Inr:
  assumes "Conf s p = Inr c"
  obtains d w k q where "conf_of s = Inr d" and "WORKERS_of d p = Inr w"
    and "settings_SECRET_KEY s = Inr k" and "QSIZE_of p = Inr q"
    and "c = Conf_attrs d w k q p"
  using assms by (auto simp: Conf_def split: sum.splits)

lemma Conf_WORKERS:
  "Conf s p = Inr c \<Longrightarrow> conf_of s = Inr d \<Longrightarrow> WORKERS_of d p = Inr (WORKERS c)"
  by (erule Conf_Inr) (simp add: Conf_attrs_def)

text \<open>
  Claim C1. The number of workers follows the chain in its order. A truthy override is
  the result whatever the probes do (they are not called). Without one, a count that
  \<^verbatim>\<open>cpu_count()\<close> returns is the result. When \<^verbatim>\<open>cpu_count()\<close> raises
  NotImplementedError, the result is the count of psutil when the module is there and
  the count is truthy, and 4 when the module is missing or its count is \<^verbatim>\<open>None\<close> or 0.
  The field \<open>WORKERS\<close> of a resolved configuration is the result of this chain.
\<close>

theorem WORKERS_fallback_chain:
  assumes "conf_of s = Inr d"
  shows "(truthy (workers_override d) \<longrightarrow> WORKERS_of d p = Inr (workers_override d))
    \<and> (\<not> truthy (workers_override d) \<and> cpu_count p = Inr n \<longrightarrow>
         WORKERS_of d p = Inr (PyInt n))
    \<and> (\<not> truthy (workers_override d) \<and> cpu_count p = Inl NotImplementedError
         \<and> psutil p = Some m \<and> truthy (psutil_cpu_count m) \<longrightarrow>
         WORKERS_of d p = Inr (psutil_cpu_count m))
    \<and> (\<not> truthy (workers_override d) \<and> cpu_count p = Inl NotImplementedError
         \<and> (psutil p = None \<or> (psutil p = Some m \<and> \<not> truthy (psutil_cpu_count m))) \<longrightarrow>
         WORKERS_of d p = Inr (PyInt 4))
    \<and> (Conf s p = Inr c \<longrightarrow> WORKERS_of d p = Inr (WORKERS c))"
  using assms Conf_WORKERS[of s p c d]
  by (auto simp: WORKERS_of_def py_or_def)

text \<open>
  The chain at five inputs: an override of 2 on a host whose \<^verbatim>\<open>cpu_count()\<close> raises
  an OSError; no override on the Linux host; no override, no \<^verbatim>\<open>cpu_count\<close>, psutil
  counting 2; the same with psutil counting 0; the same without psutil.
\<close>

theorem WORKERS_fallback_chain_witness:
  "WORKERS_of [''workers'' \<mapsto> PyInt 2] (linux\<lparr>cpu_count := Inl (OSError ''boom'')\<rparr>)
     = Inr (PyInt 2)
   \<and> WORKERS_of Map.empty linux = Inr (PyInt 8)
   \<and> WORKERS_of Map.empty
        (linux\<lparr>cpu_count := Inl NotImplementedError, psutil := Some example_psutil\<rparr>)
     = Inr (PyInt 2)
   \<and> WORKERS_of Map.empty
        (linux\<lparr>cpu_count := Inl NotImplementedError,
               psutil := Some (example_psutil\<lparr>psutil_cpu_count := PyInt 0\<rparr>)\<rparr>)
     = Inr (PyInt 4)
   \<and> WORKERS_of Map.empty (linux\<lparr>cpu_count := Inl NotImplementedError\<rparr>) = Inr (PyInt 4)"
proof -
  let ?over = "bare_settings\<lparr>settings_Q_CLUSTER := Inr [''workers'' \<mapsto> PyInt 2]\<rparr>"
  have h1: "conf_of ?over = Inr [''workers'' \<mapsto> PyInt 2]"
    by (simp add: conf_of_def)
  have h2: "conf_of bare_settings = Inr Map.empty"
    by (simp add: conf_of_def bare_settings_def)
  note a = WORKERS_fallback_chain [OF h1, of "linux\<lparr>cpu_count := Inl (OSError ''boom'')\<rparr>"]
  note b = WORKERS_fallback_chain [OF h2, of linux 8]
  note c = WORKERS_fallback_chain [OF h2,
      of "linux\<lparr>cpu_count := Inl NotImplementedError, psutil := Some example_psutil\<rparr>"
         _ example_psutil]
  note d = WORKERS_fallback_chain [OF h2,
      of "linux\<lparr>cpu_count := Inl NotImplementedError,
               psutil := Some (example_psutil\<lparr>psutil_cpu_count := PyInt 0\<rparr>)\<rparr>"
         _ "example_psutil\<lparr>psutil_cpu_count := PyInt 0\<rparr>"]
  note e = WORKERS_fallback_chain [OF h2, of "linux\<lparr>cpu_count := Inl NotImplementedError\<rparr>"]
  have "WORKERS_of [''workers'' \<mapsto> PyInt 2] (linux\<lparr>cpu_count := Inl (OSError ''boom'')\<rparr>)
     = Inr (PyInt 2)"
    using a by (simp add: workers_override_def dict_get_def truthy_def)
  moreover have "WORKERS_of Map.empty linux = Inr (PyInt 8)"
    using b by (simp add: workers_override_def dict_get_def truthy_def linux_def)
  moreover have "WORKERS_of Map.empty
        (linux\<lparr>cpu_count := Inl NotImplementedError, psutil := Some example_psutil\<rparr>)
     = Inr (PyInt 2)"
    using c by (simp add: workers_override_def dict_get_def truthy_def example_psutil_def)
  moreover have "WORKERS_of Map.empty
        (linux\<lparr>cpu_count := Inl NotImplementedError,
               psutil := Some (example_psutil\<lparr>psutil_cpu_count := PyInt 0\<rparr>)\<rparr>)
     = Inr (PyInt 4)"
    using d by (simp add: workers_override_def dict_get_def truthy_def)
  moreover have "WORKERS_of Map.empty (linux\<lparr>cpu_count := Inl NotImplementedError\<rparr>)
     = Inr (PyInt 4)"
    using e by (simp add: workers_override_def dict_get_def truthy_def linux_def)
  ultimately show ?thesis by simp
qed

text \<open>
  Claim C4, as stated, fails: an override of \<open>-1\<close> is truthy, so it is the number of
  workers, and it is below 1.
\<close>

theorem WORKERS_negative_counterexample:
  "map_sum id WORKERS
     (Conf (bare_settings\<lparr>settings_Q_CLUSTER := Inr [''workers'' \<mapsto> PyInt (- 1)]\<rparr>) linux)
     = Inr (PyInt (- 1))
   \<and> \<not> at_least_one (PyInt (- 1))"
  by (simp add: model_defs example_defs at_least_one_def)

lemma py_or_at_least_one:
  assumes "case x of PyNone \<Rightarrow> True | PyInt n \<Rightarrow> 0 \<le> n | _ \<Rightarrow> False"
  shows "at_least_one (py_or x (PyInt 4))"
  using assms by (cases x) (auto simp: py_or_def truthy_def at_least_one_def)

lemma WORKERS_of_at_least_one:
  assumes "WORKERS_of d p = Inr w" and "probe_contract p"
    and "\<not> truthy (workers_override d) \<or> at_least_one (workers_override d)"
  shows "at_least_one w"
proof (cases "truthy (workers_override d)")
  case True
  with assms(1,3) show ?thesis by (simp add: WORKERS_of_def)
next
  case False
  show ?thesis
  proof (cases "cpu_count p")
    case (Inr n)
    with False assms(1,2) show ?thesis
      by (auto simp: WORKERS_of_def probe_contract_def at_least_one_def)
  next
    case (Inl e)
    with False assms(1) have e: "e = NotImplementedError"
      by (auto simp: WORKERS_of_def split: if_splits)
    show ?thesis
    proof (cases "psutil p")
      case None
      with False Inl e assms(1) show ?thesis
        by (auto simp: WORKERS_of_def at_least_one_def)
    next
      case (Some m)
      with assms(2)
      have "case psutil_cpu_count m of PyNone \<Rightarrow> True | PyInt n \<Rightarrow> 0 \<le> n | _ \<Rightarrow> False"
        by (simp add: probe_contract_def)
      from py_or_at_least_one[OF this] False Inl e Some assms(1) show ?thesis
        by (auto simp: WORKERS_of_def)
    qed
  qed
qed

text \<open>
  Claim C4, amended. When the override is missing, falsy, or itself an integer of at
  least 1, and the probes keep their promises (\<open>probe_contract\<close>), the number of
  workers of a resolved configuration is an integer of at least 1. The class body does
  not validate a truthy override: it is kept as given.
\<close>

theorem WORKERS_at_least_one:
  assumes "conf_of s = Inr d" and "Conf s p = Inr c"
    and "probe_contract p"
    and "\<not> truthy (workers_override d) \<or> at_least_one (workers_override d)"
  shows "at_least_one (WORKERS c)"
  using WORKERS_of_at_least_one [OF Conf_WORKERS [OF assms(2,1)] assms(3,4)] .

theorem WORKERS_at_least_one_witness:
  "at_least_one (PyInt 8) \<and> map_sum id WORKERS (Conf bare_settings linux) = Inr (PyInt 8)"
proof -
  have h1: "conf_of bare_settings = Inr Map.empty"
    by (simp add: conf_of_def bare_settings_def)
  have "map_sum id WORKERS (Conf bare_settings linux) = Inr (PyInt 8)"
    by (simp add: model_defs example_defs)
  then obtain c where h2: "Conf bare_settings linux = Inr c" and w: "WORKERS c = PyInt 8"
    by (cases "Conf bare_settings linux") auto
  have h3: "probe_contract linux" by (simp add: probe_contract_def linux_def)
  have h4: "\<not> truthy (workers_override Map.empty) \<or> at_least_one (workers_override Map.empty)"
    by (simp add: workers_override_def dict_get_def truthy_def)
  from WORKERS_at_least_one [OF h1 h2 h3 h4] h2 w show ?thesis by simp
qed

text \<open>
  Claim C10. The override is tested for truth, not for presence: with a falsy value
  under \<^verbatim>\<open>'workers'\<close> the chain gives what it gives when the key is missing, in the
  step and in the resolved configuration. So an explicit 0 is never the number of
  workers: as long as \<^verbatim>\<open>cpu_count()\<close> does not itself return 0 (it raises
  NotImplementedError when it finds no processor), the result is truthy.
\<close>

theorem workers_falsy_discarded:
  assumes "\<not> truthy v"
  shows "WORKERS_of (d(''workers'' \<mapsto> v)) p = WORKERS_of (d(''workers'' := None)) p
    \<and> map_sum id WORKERS (Conf (s\<lparr>settings_Q_CLUSTER := Inr (d(''workers'' \<mapsto> v))\<rparr>) p)
        = map_sum id WORKERS (Conf (s\<lparr>settings_Q_CLUSTER := Inr (d(''workers'' := None))\<rparr>) p)
    \<and> (cpu_count p \<noteq> Inr 0 \<longrightarrow>
         WORKERS_of (d(''workers'' \<mapsto> v)) p \<noteq> Inr (PyInt 0)
         \<and> (\<forall>w. WORKERS_of (d(''workers'' \<mapsto> v)) p = Inr w \<longrightarrow> truthy w))"
proof -
  have eq: "WORKERS_of (d(''workers'' \<mapsto> v)) p = WORKERS_of (d(''workers'' := None)) p"
    using assms by (simp add: WORKERS_of_def workers_override_def dict_get_def truthy_def)
  have conf: "map_sum id WORKERS (Conf (s\<lparr>settings_Q_CLUSTER := Inr (d(''workers'' \<mapsto> v))\<rparr>) p)
        = map_sum id WORKERS (Conf (s\<lparr>settings_Q_CLUSTER := Inr (d(''workers'' := None))\<rparr>) p)"
    by (simp add: Conf_def Conf_attrs_def conf_of_def eq split: sum.splits)
  have nz: "truthy w"
    if "cpu_count p \<noteq> Inr 0" "WORKERS_of (d(''workers'' \<mapsto> v)) p = Inr w" for w
    using that assms
    by (auto simp: WORKERS_of_def workers_override_def dict_get_def py_or_def truthy_def
        split: sum.splits if_splits option.splits)
  have "WORKERS_of (d(''workers'' \<mapsto> v)) p \<noteq> Inr (PyInt 0)" if "cpu_count p \<noteq> Inr 0"
    using nz[OF that, of "PyInt 0"] by (auto simp: truthy_def)
  with eq conf nz show ?thesis by blast
qed

theorem workers_falsy_discarded_witness:
  "WORKERS_of [''name'' \<mapsto> PyStr ''site2'', ''workers'' \<mapsto> PyInt 0] linux
     = WORKERS_of [''name'' \<mapsto> PyStr ''site2''] linux
   \<and> WORKERS_of [''name'' \<mapsto> PyStr ''site2'', ''workers'' \<mapsto> PyInt 0] linux = Inr (PyInt 8)
   \<and> map_sum id WORKERS
        (Conf (bare_settings\<lparr>settings_Q_CLUSTER :=
           Inr [''name'' \<mapsto> PyStr ''site2'', ''workers'' \<mapsto> PyInt 0]\<rparr>) linux)
     = Inr (PyInt 8)"
proof -
  have h: "\<not> truthy (PyInt 0)" by (simp add: truthy_def)
  have nz: "cpu_count linux \<noteq> Inr 0" by (simp add: linux_def)
  note t = workers_falsy_discarded [OF h, of "[''name'' \<mapsto> PyStr ''site2'']" linux bare_settings]
  have r: "WORKERS_of [''name'' \<mapsto> PyStr ''site2''] linux = Inr (PyInt 8)"
    by (simp add: WORKERS_of_def workers_override_def dict_get_def truthy_def linux_def)
  have c: "map_sum id WORKERS
        (Conf (bare_settings\<lparr>settings_Q_CLUSTER := Inr [''name'' \<mapsto> PyStr ''site2'']\<rparr>) linux)
     = Inr (PyInt 8)"
    by (simp add: model_defs example_defs)
  have m: "[''name'' \<mapsto> PyStr ''site2''](''workers'' := None) = [''name'' \<mapsto> PyStr ''site2'']"
    by (rule ext) simp
  from t nz r c show ?thesis unfolding m by simp
qed

subsection \<open>The signing key\<close>

text \<open>
  Claim C2, as stated, fails: line 87 copies \<^verbatim>\<open>settings.SECRET_KEY\<close> and tests
  nothing (the comment above it leaves the test to Django), so with a host whose secret
  is the empty string the class body runs to its end and the key is empty.
\<close>

theorem SECRET_KEY_empty_counterexample:
  "map_sum id SECRET_KEY (Conf (bare_settings\<lparr>settings_SECRET_KEY := Inr ''''\<rparr>) linux) = Inr ''''"
  by (simp add: model_defs example_defs)

text \<open>
  Claim C2, amended. When the host gives a secret, empty or not, the key of a resolved
  configuration is that secret, and a failure of the class body is not about the
  secret: the body fails in the same way with any other secret \<open>k'\<close>.
\<close>

theorem SECRET_KEY_copied:
  assumes "settings_SECRET_KEY s = Inr k"
  shows "case Conf s p of
           Inr c \<Rightarrow> SECRET_KEY c = k
         | Inl e \<Rightarrow> Conf (s\<lparr>settings_SECRET_KEY := Inr k'\<rparr>) p = Inl e"
  using assms by (auto simp: Conf_def Conf_attrs_def conf_of_def split: sum.splits)

theorem SECRET_KEY_copied_witness:
  "map_sum id SECRET_KEY (Conf bare_settings linux) = Inr ''s3cr3t''
   \<and> map_sum id SECRET_KEY (Conf (bare_settings\<lparr>settings_SECRET_KEY := Inr ''''\<rparr>) linux)
      = Inr ''''
   \<and> Conf (bare_settings\<lparr>settings_SECRET_KEY := Inr ''''\<rparr>)
        (linux\<lparr>qsize := Inl (OSError ''[Errno 38] Function not implemented'')\<rparr>)
      = Inl (OSError ''[Errno 38] Function not implemented'')"
proof -
  let ?empty = "bare_settings\<lparr>settings_SECRET_KEY := Inr ''''\<rparr>"
  let ?noq = "linux\<lparr>qsize := Inl (OSError ''[Errno 38] Function not implemented'')\<rparr>"
  have h1: "settings_SECRET_KEY bare_settings = Inr ''s3cr3t''"
    by (simp add: bare_settings_def)
  have h2: "settings_SECRET_KEY ?empty = Inr ''''"
    by simp
  note a = SECRET_KEY_copied [OF h1, where p = linux]
  note b = SECRET_KEY_copied [OF h2, where p = linux]
  note c = SECRET_KEY_copied [OF h2, where p = ?noq and k' = "''s3cr3t''"]
  have "map_sum id SECRET_KEY (Conf bare_settings linux) = Inr ''s3cr3t''"
    using a by (cases "Conf bare_settings linux") (simp_all add: model_defs example_defs)
  moreover have "map_sum id SECRET_KEY (Conf ?empty linux) = Inr ''''"
    using b by (cases "Conf ?empty linux") (simp_all add: model_defs example_defs)
  moreover have "Conf ?empty ?noq = Inl (OSError ''[Errno 38] Function not implemented'')"
    using c by (simp add: model_defs example_defs)
  ultimately show ?thesis by simp
qed

subsection \<open>The queue keys\<close>

text \<open>
  Claim C7. For a cluster name that is a string, the list key is
  \<^verbatim>\<open>django_q:<name>:q\<close> and the statistics key is \<^verbatim>\<open>django_q:<name>:cluster\<close>;
  without the key \<^verbatim>\<open>'name'\<close> the name is \<^verbatim>\<open>default\<close>; the name is what the
  settings give under \<^verbatim>\<open>'name'\<close>; and two resolutions with the same name, on any
  settings and platforms, have the same keys.
\<close>

theorem Q_keys:
  assumes "Conf s p = Inr c" and "Conf s' p' = Inr c'"
  shows "(PREFIX c = PyStr name \<longrightarrow>
            Q_LIST c = ''django_q:'' @ name @ '':q''
          \<and> Q_STAT c = ''django_q:'' @ name @ '':cluster'')
    \<and> (conf_of s = Inr d \<and> d ''name'' = None \<longrightarrow>
            PREFIX c = PyStr ''default''
          \<and> Q_LIST c = ''django_q:default:q''
          \<and> Q_STAT c = ''django_q:default:cluster'')
    \<and> (conf_of s = Inr d \<and> d ''name'' = Some v \<longrightarrow> PREFIX c = v)
    \<and> (PREFIX c = PyStr name \<and> PREFIX c' = PyStr name \<longrightarrow>
            Q_LIST c' = Q_LIST c \<and> Q_STAT c' = Q_STAT c)"
  using assms
  by (auto simp: Conf_def Conf_attrs_def Q_LIST_of_def Q_STAT_of_def py_format_def
      dict_get_def split: sum.splits)

theorem Q_keys_witness:
  "map_sum id (\<lambda>c. (PREFIX c, Q_LIST c, Q_STAT c)) (Conf site2_settings linux)
     = Inr (PyStr ''site2'', ''django_q:site2:q'', ''django_q:site2:cluster'')
   \<and> map_sum id (\<lambda>c. (PREFIX c, Q_LIST c, Q_STAT c)) (Conf bare_settings linux)
     = Inr (PyStr ''default'', ''django_q:default:q'', ''django_q:default:cluster'')"
proof -
  have "map_sum id PREFIX (Conf site2_settings linux) = Inr (PyStr ''site2'')"
    by (simp add: model_defs example_defs)
  then obtain c where c: "Conf site2_settings linux = Inr c" "PREFIX c = PyStr ''site2''"
    by (cases "Conf site2_settings linux") auto
  have "map_sum id PREFIX (Conf bare_settings linux) = Inr (PyStr ''default'')"
    by (simp add: model_defs example_defs)
  then obtain c' where c': "Conf bare_settings linux = Inr c'"
    by (cases "Conf bare_settings linux") auto
  have d: "conf_of bare_settings = Inr Map.empty"
    by (simp add: conf_of_def bare_settings_def)
  from Q_keys [OF c(1) c', of "''site2''"] c
  have "map_sum id (\<lambda>c. (PREFIX c, Q_LIST c, Q_STAT c)) (Conf site2_settings linux)
     = Inr (PyStr ''site2'', ''django_q:site2:q'', ''django_q:site2:cluster'')"
    by simp
  moreover from Q_keys [OF c' c(1), of _ Map.empty] c' d
  have "map_sum id (\<lambda>c. (PREFIX c, Q_LIST c, Q_STAT c)) (Conf bare_settings linux)
     = Inr (PyStr ''default'', ''django_q:default:q'', ''django_q:default:cluster'')"
    by simp
  ultimately show ?thesis by simp
qed

subsection \<open>The qsize probe\<close>

text \<open>
  Claim C6, as stated, fails: the handler of lines 95 to 98 names NotImplementedError
  only. A probe that raises another exception (here the OSError of a host without
  semaphores) ends the class body with that exception.
\<close>

theorem QSIZE_other_exception_counterexample:
  "Conf bare_settings (linux\<lparr>qsize := Inl (OSError ''[Errno 38] Function not implemented'')\<rparr>)
     = Inl (OSError ''[Errno 38] Function not implemented'')"
  by (simp add: model_defs example_defs)

text \<open>
  Claim C6, amended. When the statements before the probe have run, a probe that returns
  a size or raises NotImplementedError does not fail the resolution: \<open>QSIZE\<close> is true
  exactly when the size read is 0, and false when the probe raises NotImplementedError.
  Any other exception of the probe leaves the class body.
\<close>

theorem QSIZE_probe:
  assumes "conf_of s = Inr d" and "WORKERS_of d p = Inr w" and "settings_SECRET_KEY s = Inr k"
  shows "(qsize p = Inr n \<longrightarrow> map_sum id QSIZE (Conf s p) = Inr (n = 0))
    \<and> (qsize p = Inl NotImplementedError \<longrightarrow> map_sum id QSIZE (Conf s p) = Inr False)
    \<and> (qsize p = Inl e \<and> e \<noteq> NotImplementedError \<longrightarrow> Conf s p = Inl e)"
  using assms by (simp add: Conf_def Conf_attrs_def QSIZE_of_def)

theorem QSIZE_probe_witness:
  "map_sum id QSIZE (Conf bare_settings linux) = Inr True
   \<and> map_sum id QSIZE (Conf bare_settings (linux\<lparr>qsize := Inr 3\<rparr>)) = Inr False
   \<and> map_sum id QSIZE (Conf bare_settings (linux\<lparr>qsize := Inl NotImplementedError\<rparr>)) = Inr False
   \<and> Conf bare_settings (linux\<lparr>qsize := Inl ImportError\<rparr>) = Inl ImportError"
proof -
  have h1: "conf_of bare_settings = Inr Map.empty"
    by (simp add: conf_of_def bare_settings_def)
  have h2: "WORKERS_of Map.empty (linux\<lparr>qsize := q\<rparr>) = Inr (PyInt 8)" for q
    by (simp add: WORKERS_of_def workers_override_def dict_get_def truthy_def linux_def)
  have h2': "WORKERS_of Map.empty linux = Inr (PyInt 8)"
    by (simp add: WORKERS_of_def workers_override_def dict_get_def truthy_def linux_def)
  have h3: "settings_SECRET_KEY bare_settings = Inr ''s3cr3t''"
    by (simp add: bare_settings_def)
  have "map_sum id QSIZE (Conf bare_settings linux) = Inr True"
    using QSIZE_probe [OF h1 h2' h3, of 0] by (simp add: linux_def)
  moreover have "map_sum id QSIZE (Conf bare_settings (linux\<lparr>qsize := Inr 3\<rparr>)) = Inr False"
    using QSIZE_probe [OF h1 h2 h3, of "Inr 3" 3] by simp
  moreover have "map_sum id QSIZE (Conf bare_settings (linux\<lparr>qsize := Inl NotImplementedError\<rparr>))
      = Inr False"
    using QSIZE_probe [OF h1 h2 h3, of "Inl NotImplementedError"] by simp
  moreover have "Conf bare_settings (linux\<lparr>qsize := Inl ImportError\<rparr>) = Inl ImportError"
    using QSIZE_probe [OF h1 h2 h3, of "Inl ImportError" _ ImportError] by simp
  ultimately show ?thesis by simp
qed

subsection \<open>Defaults and unknown keys\<close>

lemma Conf_cong_keys:
  assumes "\<forall>k \<in> set conf_keys. d' k = d k"
  shows "Conf (s\<lparr>settings_Q_CLUSTER := Inr d'\<rparr>) p = Conf (s\<lparr>settings_Q_CLUSTER := Inr d\<rparr>) p"
proof -
  have g: "dict_get d' k x = dict_get d k x" if "k \<in> set conf_keys" for k x
    using assms that by (simp add: dict_get_def)
  have w: "WORKERS_of d' p = WORKERS_of d p"
    by (simp add: WORKERS_of_def workers_override_def g conf_keys_def)
  have a: "Conf_attrs d' w k q p = Conf_attrs d w k q p" for w k q
    by (simp add: Conf_attrs_def g conf_keys_def)
  show ?thesis
    by (simp add: Conf_def conf_of_def w a split: sum.splits)
qed

lemma Conf_conf_of:
  assumes "conf_of s = Inr d"
  shows "Conf (s\<lparr>settings_Q_CLUSTER := Inr d\<rparr>) p = Conf s p"
  using assms by (simp add: Conf_def conf_of_def split: sum.splits)

text \<open>
  Claim C8. In a resolved configuration every field whose key the settings dictionary
  does not hold has its default; settings without \<^verbatim>\<open>Q_CLUSTER\<close> count as the empty
  dictionary; and a dictionary \<open>d'\<close> that agrees with \<open>d\<close> on the keys the class
  body reads resolves to the same configuration, whatever else it holds.
\<close>

theorem Conf_defaults:
  assumes "conf_of s = Inr d" and "Conf s p = Inr c"
  shows "(d ''redis'' = None \<longrightarrow> REDIS c = PyDict [])
    \<and> (d ''django_redis'' = None \<longrightarrow> DJANGO_REDIS c = PyNone)
    \<and> (d ''name'' = None \<longrightarrow> PREFIX c = PyStr ''default'')
    \<and> (d ''log_level'' = None \<longrightarrow> LOG_LEVEL c = PyStr ''INFO'')
    \<and> (d ''save_limit'' = None \<longrightarrow> SAVE_LIMIT c = PyInt 250)
    \<and> (d ''queue_limit'' = None \<longrightarrow> QUEUE_LIMIT c = PyNone)
    \<and> (d ''compress'' = None \<longrightarrow> COMPRESSED c = PyBool False)
    \<and> (d ''recycle'' = None \<longrightarrow> RECYCLE c = PyInt 500)
    \<and> (d ''timeout'' = None \<longrightarrow> TIMEOUT c = PyNone)
    \<and> (d ''label'' = None \<longrightarrow> LABEL c = PyStr ''Django Q'')
    \<and> (d ''cpu_affinity'' = None \<longrightarrow> CPU_AFFINITY c = PyInt 0)
    \<and> (d ''sync'' = None \<longrightarrow> SYNC c = PyBool False)
    \<and> (d ''catch_up'' = None \<longrightarrow> CATCH_UP c = PyBool True)
    \<and> (d ''testing'' = None \<longrightarrow> TESTING c = PyBool False)
    \<and> (settings_Q_CLUSTER s = Inl AttributeError \<longrightarrow> d = Map.empty)
    \<and> ((\<forall>k \<in> set conf_keys. d' k = d k) \<longrightarrow>
          Conf (s\<lparr>settings_Q_CLUSTER := Inr d'\<rparr>) p = Inr c)"
proof -
  from assms(2) obtain d0 w k q where "conf_of s = Inr d0" and c: "c = Conf_attrs d0 w k q p"
    by (rule Conf_Inr)
  with assms(1) have c: "c = Conf_attrs d w k q p" by simp
  have fields: "(d ''redis'' = None \<longrightarrow> REDIS c = PyDict [])
    \<and> (d ''django_redis'' = None \<longrightarrow> DJANGO_REDIS c = PyNone)
    \<and> (d ''name'' = None \<longrightarrow> PREFIX c = PyStr ''default'')
    \<and> (d ''log_level'' = None \<longrightarrow> LOG_LEVEL c = PyStr ''INFO'')
    \<and> (d ''save_limit'' = None \<longrightarrow> SAVE_LIMIT c = PyInt 250)
    \<and> (d ''queue_limit'' = None \<longrightarrow> QUEUE_LIMIT c = PyNone)
    \<and> (d ''compress'' = None \<longrightarrow> COMPRESSED c = PyBool False)
    \<and> (d ''recycle'' = None \<longrightarrow> RECYCLE c = PyInt 500)
    \<and> (d ''timeout'' = None \<longrightarrow> TIMEOUT c = PyNone)
    \<and> (d ''label'' = None \<longrightarrow> LABEL c = PyStr ''Django Q'')
    \<and> (d ''cpu_affinity'' = None \<longrightarrow> CPU_AFFINITY c = PyInt 0)
    \<and> (d ''sync'' = None \<longrightarrow> SYNC c = PyBool False)
    \<and> (d ''catch_up'' = None \<longrightarrow> CATCH_UP c = PyBool True)
    \<and> (d ''testing'' = None \<longrightarrow> TESTING c = PyBool False)"
    unfolding c by (simp add: Conf_attrs_def dict_get_def)
  have absent: "settings_Q_CLUSTER s = Inl AttributeError \<longrightarrow> d = Map.empty"
    using assms(1) by (auto simp: conf_of_def)
  have unknown: "(\<forall>k \<in> set conf_keys. d' k = d k) \<longrightarrow>
          Conf (s\<lparr>settings_Q_CLUSTER := Inr d'\<rparr>) p = Inr c"
    using Conf_cong_keys [of d' d s p] Conf_conf_of [OF assms(1), of p] assms(2) by simp
  from fields absent unknown show ?thesis by (intro conjI) (elim conjE, assumption)+
qed

theorem Conf_defaults_witness:
  "Conf bare_settings linux = Inr (Conf_attrs Map.empty (PyInt 8) ''s3cr3t'' True linux)
   \<and> map_sum id
        (\<lambda>c. (REDIS c, DJANGO_REDIS c, PREFIX c, LOG_LEVEL c, SAVE_LIMIT c, QUEUE_LIMIT c,
              COMPRESSED c))
        (Conf bare_settings linux)
      = Inr (PyDict [], PyNone, PyStr ''default'', PyStr ''INFO'', PyInt 250, PyNone,
             PyBool False)
   \<and> map_sum id
        (\<lambda>c. (RECYCLE c, TIMEOUT c, LABEL c, CPU_AFFINITY c, SYNC c, CATCH_UP c, TESTING c))
        (Conf bare_settings linux)
      = Inr (PyInt 500, PyNone, PyStr ''Django Q'', PyInt 0, PyBool False, PyBool True,
             PyBool False)
   \<and> Conf (bare_settings\<lparr>settings_Q_CLUSTER :=
              Inr [''colour'' \<mapsto> PyStr ''red'', ''max_attempts'' \<mapsto> PyInt 3]\<rparr>) linux
      = Conf bare_settings linux"
proof -
  let ?c = "Conf_attrs Map.empty (PyInt 8) ''s3cr3t'' True linux"
  let ?d' = "[''colour'' \<mapsto> PyStr ''red'', ''max_attempts'' \<mapsto> PyInt 3]"
  have h1: "conf_of bare_settings = Inr Map.empty"
    by (simp add: conf_of_def bare_settings_def)
  have h2: "Conf bare_settings linux = Inr ?c"
    by (simp add: Conf_def conf_of_def WORKERS_of_def workers_override_def dict_get_def
        truthy_def QSIZE_of_def bare_settings_def linux_def)
  have h3: "\<forall>k \<in> set conf_keys. ?d' k = Map.empty k"
    by (simp add: conf_keys_def)
  note t = Conf_defaults [OF h1 h2, of ?d']
  have a: "map_sum id
        (\<lambda>c. (REDIS c, DJANGO_REDIS c, PREFIX c, LOG_LEVEL c, SAVE_LIMIT c, QUEUE_LIMIT c,
              COMPRESSED c))
        (Conf bare_settings linux)
      = Inr (PyDict [], PyNone, PyStr ''default'', PyStr ''INFO'', PyInt 250, PyNone,
             PyBool False)"
    using t by (simp add: h2)
  have b: "map_sum id
        (\<lambda>c. (RECYCLE c, TIMEOUT c, LABEL c, CPU_AFFINITY c, SYNC c, CATCH_UP c, TESTING c))
        (Conf bare_settings linux)
      = Inr (PyInt 500, PyNone, PyStr ''Django Q'', PyInt 0, PyBool False, PyBool True,
             PyBool False)"
    using t by (simp add: h2)
  have c: "Conf (bare_settings\<lparr>settings_Q_CLUSTER := Inr ?d'\<rparr>) linux = Conf bare_settings linux"
    using t h3 by (simp add: h2)
  from h2 a b c show ?thesis by simp
qed

subsection \<open>The redis client\<close>



subsection \<open>The parent process id\<close>

text \<open>
  Claim C9. \<^verbatim>\<open>get_ppid\<close> returns \<^verbatim>\<open>os.getppid()\<close> when the os module has it;
  otherwise, with psutil, the parent id psutil gives for the current process; it raises
  OSError exactly when neither is there, and it raises nothing else.
\<close>

theorem get_ppid_fallback:
  "(os_getppid p = Some v \<longrightarrow> get_ppid p = Inr v)
   \<and> (os_getppid p = None \<and> psutil p = Some m \<longrightarrow>
        get_ppid p = Inr (Process_ppid m (os_getpid p)))
   \<and> ((\<exists>msg. get_ppid p = Inl (OSError msg)) = (os_getppid p = None \<and> psutil p = None))
   \<and> (get_ppid p = Inl e \<longrightarrow> (\<exists>msg. e = OSError msg))"
  by (auto simp: get_ppid_def split: option.splits)

theorem get_ppid_fallback_witness:
  "get_ppid linux = Inr 1
   \<and> get_ppid (linux\<lparr>os_getppid := None,
        psutil := Some \<lparr>psutil_cpu_count = PyInt 2, Process_ppid = (\<lambda>pid. pid - 1)\<rparr>\<rparr>) = Inr 4241
   \<and> get_ppid (linux\<lparr>os_getppid := None\<rparr>)
      = Inl (OSError ''Your OS does not support `os.getppid`. Please install `psutil` as an alternative provider.'')"
proof -
  note a = get_ppid_fallback [of linux 1]
  note b = get_ppid_fallback [of "linux\<lparr>os_getppid := None,
        psutil := Some \<lparr>psutil_cpu_count = PyInt 2, Process_ppid = (\<lambda>pid. pid - 1)\<rparr>\<rparr>" _
        "\<lparr>psutil_cpu_count = PyInt 2, Process_ppid = (\<lambda>pid. pid - 1)\<rparr>"]
  note c = get_ppid_fallback [of "linux\<lparr>os_getppid := None\<rparr>"]
  have "get_ppid linux = Inr 1" using a by (simp add: linux_def)
  moreover have "get_ppid (linux\<lparr>os_getppid := None,
        psutil := Some \<lparr>psutil_cpu_count = PyInt 2, Process_ppid = (\<lambda>pid. pid - 1)\<rparr>\<rparr>) = Inr 4241"
    using b by (simp add: linux_def)
  moreover have "get_ppid (linux\<lparr>os_getppid := None\<rparr>)
      = Inl (OSError ''Your OS does not support `os.getppid`. Please install `psutil` as an alternative provider.'')"
  proof -
    have "os_getppid (linux\<lparr>os_getppid := None\<rparr>) = None \<and> psutil (linux\<lparr>os_getppid := None\<rparr>) = None"
      by (simp add: linux_def)
    with c obtain msg where "get_ppid (linux\<lparr>os_getppid := None\<rparr>) = Inl (OSError msg)"
      by blast
    then show ?thesis by (simp add: get_ppid_def linux_def)
  qed
  ultimately show ?thesis by simp
qed

subsection \<open>The signal names\<close>

text \<open>
  Whatever the module \<^verbatim>\<open>signal\<close> defines, the table is built from the attributes of
  the function: when none of their names starts with SIG, the table is empty.
\<close>

lemma SIGNAL_NAMES_of_no_SIG:
  assumes "\<forall>(n, v) \<in> set (signal_function p). \<not> startswith n ''SIG''"
  shows "SIGNAL_NAMES_of p = Map.empty"
proof -
  have "[(v, n). (n, v) \<leftarrow> signal_function p, startswith n ''SIG'' \<and> CHR ''_'' \<notin> set n] = []"
    using assms by (induction "signal_function p" arbitrary: p) (auto simp: concat_eq_Nil_conv)
  then show ?thesis by (simp add: SIGNAL_NAMES_of_def dict_of_items_def)
qed

text \<open>
  Claim C3 does not hold of the code. On the Linux host the module \<^verbatim>\<open>signal\<close>
  defines SIGINT as 2, but line 101 reads the function that line 2 imported, so the
  table of the resolved configuration has no entry for 2: it has no entry at all.
\<close>

theorem SIGNAL_NAMES_empty:
  "map_of (signal_module linux) ''SIGINT'' = Some (PyInt 2)
   \<and> SIGNAL_NAMES_of linux (PyInt 2) = None
   \<and> map_sum id (\<lambda>c. SIGNAL_NAMES c (PyInt 2)) (Conf bare_settings linux) = Inr None
   \<and> map_sum id (\<lambda>c. dom (SIGNAL_NAMES c)) (Conf bare_settings linux) = Inr {}"
  by (simp add: model_defs example_defs)

end
